theory Spec2Isabelle
  imports Complex_Main "HOL-Library.Word" "HOL-Library.Monad_Syntax"
begin

section \<open>The benchmark program: examples/const\_vs\_nonconst.cpp\<close>

subsection \<open>Machine integers\<close>

text \<open>
  The C++ type \<open>int\<close> of the example is a 32-bit two's-complement integer: a
  \<open>32 word\<close>, read with \<open>sint\<close> and compared with the signed order \<open><s\<close>.
  Addition on words wraps around, which is what an ordinary build of the example executes.
  ISO C++ leaves a signed addition whose result is out of range undefined; \<open>add_int\<close> is
  that reading, with \<open>None\<close> for the undefined case.
\<close>

type_synonym int32 = "32 word"

definition add_int :: "int32 \<Rightarrow> int32 \<Rightarrow> int32 option" where
  "add_int a b =
     (if - (2 ^ 31) \<le> sint a + sint b \<and> sint a + sint b < 2 ^ 31 then Some (a + b) else None)"

lemma sint_add_in_range:
  fixes a b :: int32
  assumes "- (2 ^ 31) \<le> sint a + sint b" and "sint a + sint b < 2 ^ 31"
  shows "sint (a + b) = sint a + sint b"
  using assms by (simp add: sint_word_ariths signed_take_bit_int_eq_self)

lemma sint_succ:
  fixes i :: int32
  assumes "sint i < 1000000"
  shows "sint (i + 1) = sint i + 1"
  using assms sint_ge [of i] by (simp add: sint_add_in_range)

lemma add_int_Some:
  assumes "add_int a b = Some c"
  shows "c = a + b" and "sint c = sint a + sint b"
  using assms by (auto simp: add_int_def sint_add_in_range split: if_splits)

subsection \<open>class Data\<close>

text \<open>\<open>class Data\<close> has no data members: its only value is \<open>Data\<close>.\<close>

datatype Data = Data

text \<open>
  \<^verbatim>\<open>int sum = 0; for (int i = 0; i < 1000000; ++i) { sum += i; } return sum;\<close>

  \<open>compute_loop i sum_v\<close> is the loop of \<open>Data::compute\<close> (lines 9-15) from the state
  where the counter is \<open>i\<close> and the accumulator \<open>sum\<close> holds \<open>sum_v\<close>.
\<close>

function compute_loop :: "int32 \<Rightarrow> int32 \<Rightarrow> int32" where
  "compute_loop i sum_v =
     (if i <s 1000000 then compute_loop (i + 1) (sum_v + i) else sum_v)"
  by pat_completeness auto
termination
  by (relation "measure (\<lambda>(i, sum_v). nat (1000000 - sint i))")
     (auto simp: word_sless_alt sint_succ)

declare compute_loop.simps [simp del]

definition compute :: "Data \<Rightarrow> int32" where
  "compute this = compute_loop 0 0"

text \<open>
  \<open>Data::computeNonConst\<close> (lines 17-23) is not \<open>const\<close>: it may change the object, so
  the model returns the object next to the result.
\<close>

function computeNonConst_loop :: "int32 \<Rightarrow> int32 \<Rightarrow> int32" where
  "computeNonConst_loop i sum_v =
     (if i <s 1000000 then computeNonConst_loop (i + 1) (sum_v + i) else sum_v)"
  by pat_completeness auto
termination
  by (relation "measure (\<lambda>(i, sum_v). nat (1000000 - sint i))")
     (auto simp: word_sless_alt sint_succ)

declare computeNonConst_loop.simps [simp del]

definition computeNonConst :: "Data \<Rightarrow> int32 \<times> Data" where
  "computeNonConst this = (computeNonConst_loop 0 0, this)"

text \<open>The same two member functions under the ISO C++ reading of \<open>+\<close> on \<open>int\<close>.\<close>

function compute_loop_strict :: "int32 \<Rightarrow> int32 \<Rightarrow> int32 option" where
  "compute_loop_strict i sum_v =
     (if i <s 1000000
      then do { sum_v' \<leftarrow> add_int sum_v i; i' \<leftarrow> add_int i 1; compute_loop_strict i' sum_v' }
      else Some sum_v)"
  by pat_completeness auto
termination
  by (relation "measure (\<lambda>(i, sum_v). nat (1000000 - sint i))")
     (auto simp: word_sless_alt dest: add_int_Some)

declare compute_loop_strict.simps [simp del]

definition compute_strict :: "Data \<Rightarrow> int32 option" where
  "compute_strict this = compute_loop_strict 0 0"

function computeNonConst_loop_strict :: "int32 \<Rightarrow> int32 \<Rightarrow> int32 option" where
  "computeNonConst_loop_strict i sum_v =
     (if i <s 1000000
      then do { sum_v' \<leftarrow> add_int sum_v i; i' \<leftarrow> add_int i 1;
                computeNonConst_loop_strict i' sum_v' }
      else Some sum_v)"
  by pat_completeness auto
termination
  by (relation "measure (\<lambda>(i, sum_v). nat (1000000 - sint i))")
     (auto simp: word_sless_alt dest: add_int_Some)

declare computeNonConst_loop_strict.simps [simp del]

definition computeNonConst_strict :: "Data \<Rightarrow> (int32 \<times> Data) option" where
  "computeNonConst_strict this = do { r \<leftarrow> computeNonConst_loop_strict 0 0; Some (r, this) }"

subsection \<open>main\<close>

text \<open>
  The two batches of \<open>main\<close>:
  \<^verbatim>\<open>for (int i = 0; i < 100; ++i) { data.compute(); }\<close> and
  \<^verbatim>\<open>for (int i = 0; i < 100; ++i) { data.computeNonConst(); }\<close>.
  The value each call returns is dropped.
\<close>

function const_batch :: "int32 \<Rightarrow> Data \<Rightarrow> Data" where
  "const_batch i data =
     (if i <s 100 then (let r = compute data in const_batch (i + 1) data) else data)"
  by pat_completeness auto
termination
  by (relation "measure (\<lambda>(i, data). nat (100 - sint i))")
     (auto simp: word_sless_alt sint_succ)

declare const_batch.simps [simp del]

function nonconst_batch :: "int32 \<Rightarrow> Data \<Rightarrow> Data" where
  "nonconst_batch i data =
     (if i <s 100
      then (let (r, data') = computeNonConst data in nonconst_batch (i + 1) data')
      else data)"
  by pat_completeness auto
termination
  by (relation "measure (\<lambda>(i, data). nat (100 - sint i))")
     (auto simp: word_sless_alt sint_succ)

declare nonconst_batch.simps [simp del]

text \<open>
  The two lines \<open>main\<close> writes; \<open>'d\<close> is the type of the number printed before \<open>ms\<close>.
\<close>

datatype 'd bench_line =
    ConstDuration 'd       \<comment> \<open>\<^verbatim>\<open>Const method duration: d ms\<close>\<close>
  | NonConstDuration 'd    \<comment> \<open>\<^verbatim>\<open>Non-const method duration: d ms\<close>\<close>

text \<open>
  \<open>main\<close> (lines 27-46) reads the clock four times; the four readings (in milliseconds)
  are the program's only input. It returns the lines written and the exit status.
\<close>

definition const_vs_nonconst_main ::
  "real \<Rightarrow> real \<Rightarrow> real \<Rightarrow> real \<Rightarrow> real bench_line list \<times> int" where
  "const_vs_nonconst_main startConst endConst startNonConst endNonConst =
     (let data = Data;
          data = const_batch 0 data;
          data = nonconst_batch 0 data;
          constDuration = endConst - startConst;
          nonConstDuration = endNonConst - startNonConst
      in ([ConstDuration constDuration, NonConstDuration nonConstDuration], 0))"

section \<open>The lifetime demo program: examples/ownership\_and\_lifetime.cpp\<close>

subsection \<open>Output and store\<close>

text \<open>
  An address is a number; a pointer is \<open>None\<close> (the null pointer) or \<open>Some a\<close>.
  Every statement of the program that writes to \<open>std::cout\<close> writes one line, and
  every such statement has its constructor below; \<open>'a\<close> is the type of the printed
  addresses.
\<close>

type_synonym addr = nat

datatype 'a line =
    Header string               \<comment> \<open>\<^verbatim>\<open>=== title ===\<close>, after an empty line\<close>
  | Acquire string 'a           \<comment> \<open>\<^verbatim>\<open>[Acquire] Resource: name @ this\<close>\<close>
  | Release string 'a           \<comment> \<open>\<^verbatim>\<open>[Release] Resource: name @ this\<close>\<close>
  | Use string 'a               \<comment> \<open>\<^verbatim>\<open>[Use] Resource: name @ this\<close>\<close>
  | ConsumeOwns "'a option"     \<comment> \<open>\<^verbatim>\<open>[consumeUnique] owns resource @ p\<close>\<close>
  | CallerOwns "'a option"      \<comment> \<open>\<^verbatim>\<open>[Caller] owns resource @ p\<close>\<close>
  | CallerEmpty                 \<comment> \<open>\<^verbatim>\<open>[Caller] unique_ptr is now empty\<close>\<close>
  | OwnerA "'a option" nat      \<comment> \<open>\<^verbatim>\<open>[Owner A] resource @ p, use_count = n\<close>\<close>
  | OwnerB "'a option" nat      \<comment> \<open>\<^verbatim>\<open>[Owner B] resource @ p, use_count = n\<close>\<close>
  | OwnerAAfter nat             \<comment> \<open>\<^verbatim>\<open>[Owner A] after inner scope, use_count = n\<close>\<close>
  | ObserverSees "'a option"    \<comment> \<open>\<^verbatim>\<open>[Observer] sees resource @ p\<close>\<close>
  | OwnerHas "'a option"        \<comment> \<open>\<^verbatim>\<open>[Owner] resource @ p\<close>\<close>

text \<open>\<open>class Resource\<close>: its one data member is \<open>name_\<close>.\<close>

record Resource =
  name_m :: string

text \<open>
  The state of a run: the \<open>Resource\<close> objects whose lifetime has begun and not ended,
  by address; the use counts of the control blocks of \<open>std::shared_ptr\<close>, by the address
  of the managed object; and the lines written so far.
\<close>

record world =
  objs :: "addr \<rightharpoonup> Resource"
  counts :: "addr \<rightharpoonup> nat"
  out :: "addr line list"

definition initial :: world where
  "initial = \<lparr>objs = Map.empty, counts = Map.empty, out = []\<rparr>"

definition cout :: "addr line \<Rightarrow> world \<Rightarrow> world" where
  "cout l s = s\<lparr>out := out s @ [l]\<rparr>"

subsection \<open>class Resource\<close>

text \<open>
  An operation returns \<open>None\<close> where C++ gives the program no meaning: a member function
  called on an object that is not alive, a null pointer dereferenced. The constructor has
  no such case: it begins the life of an object in the storage it is given.

  The constructor (lines 11-15), at the address \<open>this\<close> of the storage it is given, the
  destructor (lines 17-19) and \<open>use\<close> (lines 21-23).
\<close>

definition Resource_ctor :: "string \<Rightarrow> addr \<Rightarrow> world \<Rightarrow> world" where
  "Resource_ctor name this s =
     cout (Acquire name this) (s\<lparr>objs := (objs s)(this \<mapsto> \<lparr>name_m = name\<rparr>)\<rparr>)"

definition Resource_dtor :: "addr \<Rightarrow> world \<Rightarrow> world option" where
  "Resource_dtor this s =
     (case objs s this of
        None \<Rightarrow> None
      | Some r \<Rightarrow>
          Some ((cout (Release (name_m r) this) s)\<lparr>objs := (objs s)(this := None)\<rparr>))"

definition Resource_use :: "addr \<Rightarrow> world \<Rightarrow> world option" where
  "Resource_use this s =
     (case objs s this of
        None \<Rightarrow> None
      | Some r \<Rightarrow> Some (cout (Use (name_m r) this) s))"

subsection \<open>The smart pointers of the standard library\<close>

text \<open>
  A \<open>std::unique_ptr<Resource>\<close> holds a pointer. \<open>make_unique\<close> constructs the object in
  the storage \<open>a\<close> that the allocator returns; moving from a \<open>unique_ptr\<close> gives the new
  owner and leaves the source empty; its destructor deletes the object it holds, if any.
\<close>

type_synonym unique_ptr = "addr option"

definition make_unique :: "string \<Rightarrow> addr \<Rightarrow> world \<Rightarrow> unique_ptr \<times> world" where
  "make_unique name a s = (Some a, Resource_ctor name a s)"

definition unique_ptr_move :: "unique_ptr \<Rightarrow> unique_ptr \<times> unique_ptr" where
  "unique_ptr_move p = (p, None)"

definition unique_ptr_dtor :: "unique_ptr \<Rightarrow> world \<Rightarrow> world option" where
  "unique_ptr_dtor p s = (case p of None \<Rightarrow> Some s | Some a \<Rightarrow> Resource_dtor a s)"

text \<open>\<open>p->use()\<close>, for either smart pointer.\<close>

definition arrow_use :: "addr option \<Rightarrow> world \<Rightarrow> world option" where
  "arrow_use p s = (case p of None \<Rightarrow> None | Some a \<Rightarrow> Resource_use a s)"

text \<open>
  A \<open>std::shared_ptr<Resource>\<close> holds a pointer and shares a control block with the
  other owners. \<open>make_shared\<close> starts the count at 1, a copy adds 1, the destructor takes
  1 away and destroys the object when the count reaches 0.
\<close>

type_synonym shared_ptr = "addr option"

definition make_shared :: "string \<Rightarrow> addr \<Rightarrow> world \<Rightarrow> shared_ptr \<times> world" where
  "make_shared name a s =
     (let s = Resource_ctor name a s in (Some a, s\<lparr>counts := (counts s)(a \<mapsto> 1)\<rparr>))"

definition shared_ptr_copy :: "shared_ptr \<Rightarrow> world \<Rightarrow> (shared_ptr \<times> world) option" where
  "shared_ptr_copy p s =
     (case p of
        None \<Rightarrow> Some (None, s)
      | Some a \<Rightarrow>
          (case counts s a of
             None \<Rightarrow> None
           | Some n \<Rightarrow> Some (Some a, s\<lparr>counts := (counts s)(a \<mapsto> n + 1)\<rparr>)))"

definition use_count :: "shared_ptr \<Rightarrow> world \<Rightarrow> nat option" where
  "use_count p s = (case p of None \<Rightarrow> Some 0 | Some a \<Rightarrow> counts s a)"

definition shared_ptr_dtor :: "shared_ptr \<Rightarrow> world \<Rightarrow> world option" where
  "shared_ptr_dtor p s =
     (case p of
        None \<Rightarrow> Some s
      | Some a \<Rightarrow>
          (case counts s a of
             None \<Rightarrow> None
           | Some n \<Rightarrow>
               if n = 0 then None
               else if n - 1 = 0 then Resource_dtor a (s\<lparr>counts := (counts s)(a := None)\<rparr>)
               else Some (s\<lparr>counts := (counts s)(a \<mapsto> n - 1)\<rparr>)))"

subsection \<open>The functions of the program\<close>

text \<open>
  Each function that allocates takes the address its allocation returns as the argument
  \<open>a\<close>. The destructor of a local variable or of a parameter runs where its scope ends:
  the last step of the function, or of the inner block.
\<close>

text \<open>
  \<^verbatim>\<open>std::unique_ptr<Resource> createUniqueResource()\<close> (lines 29-31) and
  \<^verbatim>\<open>void consumeUnique(std::unique_ptr<Resource> res)\<close> (lines 33-37).
\<close>

definition createUniqueResource :: "addr \<Rightarrow> world \<Rightarrow> unique_ptr \<times> world" where
  "createUniqueResource a s = make_unique ''unique_resource'' a s"

definition consumeUnique :: "unique_ptr \<Rightarrow> world \<Rightarrow> world option" where
  "consumeUnique res s =
     do {
       let s = cout (ConsumeOwns res) s;
       s \<leftarrow> arrow_use res s;
       unique_ptr_dtor res s    \<comment> \<open>the parameter \<open>res\<close> is destroyed\<close>
     }"

text \<open>
  \<^verbatim>\<open>void uniqueOwnershipScenario()\<close> (lines 39-48), in two parts. First, the function up
  to and including the call on line 44: the value of the
  local \<open>res\<close> and the state when \<open>consumeUnique(std::move(res))\<close> has returned. The
  parameter of \<open>consumeUnique\<close> is move-constructed from \<open>res\<close>. Then the whole
  function: the first part, lines 45-47, and the end of the scope of \<open>res\<close>.
\<close>

definition uniqueOwnershipScenario_transfer ::
  "addr \<Rightarrow> world \<Rightarrow> (unique_ptr \<times> world) option" where
  "uniqueOwnershipScenario_transfer a s =
     do {
       let (res, s) = createUniqueResource a s;
       let s = cout (CallerOwns res) s;
       let (arg, res) = unique_ptr_move res;
       s \<leftarrow> consumeUnique arg s;
       Some (res, s)
     }"

definition uniqueOwnershipScenario :: "addr \<Rightarrow> world \<Rightarrow> world option" where
  "uniqueOwnershipScenario a s =
     do {
       (res, s) \<leftarrow> uniqueOwnershipScenario_transfer a s;
       let s = (if res = None then cout CallerEmpty s else s);
       unique_ptr_dtor res s    \<comment> \<open>the local \<open>res\<close> is destroyed\<close>
     }"

text \<open>\<^verbatim>\<open>void sharedOwnershipScenario()\<close> (lines 50-70).\<close>

definition sharedOwnershipScenario :: "addr \<Rightarrow> world \<Rightarrow> world option" where
  "sharedOwnershipScenario a s =
     do {
       let (res, s) = make_shared ''shared_resource'' a s;
       n \<leftarrow> use_count res s;
       let s = cout (OwnerA res n) s;
       (another, s) \<leftarrow> shared_ptr_copy res s;
       n \<leftarrow> use_count another s;
       let s = cout (OwnerB another n) s;
       s \<leftarrow> arrow_use another s;
       s \<leftarrow> shared_ptr_dtor another s;    \<comment> \<open>end of the inner block\<close>
       n \<leftarrow> use_count res s;
       let s = cout (OwnerAAfter n) s;
       s \<leftarrow> arrow_use res s;
       shared_ptr_dtor res s    \<comment> \<open>the local \<open>res\<close> is destroyed\<close>
     }"

text \<open>
  \<^verbatim>\<open>void observeResource(const Resource* res)\<close> (lines 72-78) and
  \<^verbatim>\<open>void observerScenario()\<close> (lines 80-85).
\<close>

definition observeResource :: "addr option \<Rightarrow> world \<Rightarrow> world option" where
  "observeResource res s =
     do {
       let s = cout (ObserverSees res) s;
       (case res of Some a \<Rightarrow> Resource_use a s | None \<Rightarrow> Some s)
     }"

definition observerScenario :: "addr \<Rightarrow> world \<Rightarrow> world option" where
  "observerScenario a s =
     do {
       let (owner, s) = make_unique ''observer_resource'' a s;
       let s = cout (OwnerHas owner) s;
       s \<leftarrow> observeResource owner s;
       unique_ptr_dtor owner s    \<comment> \<open>the local \<open>owner\<close> is destroyed\<close>
     }"

text \<open>
  \<open>main\<close> (lines 87-99), given the addresses the three allocations of the run return:
  the final state and the exit status.
\<close>

definition ownership_and_lifetime_main :: "addr \<Rightarrow> addr \<Rightarrow> addr \<Rightarrow> (world \<times> int) option" where
  "ownership_and_lifetime_main a1 a2 a3 =
     do {
       let s = cout (Header ''Unique Ownership'') initial;
       s \<leftarrow> uniqueOwnershipScenario a1 s;
       let s = cout (Header ''Shared Ownership'') s;
       s \<leftarrow> sharedOwnershipScenario a2 s;
       let s = cout (Header ''Observer Ownership'') s;
       s \<leftarrow> observerScenario a3 s;
       let s = cout (Header ''End of Program'') s;
       Some (s, 0)
     }"

text \<open>The lines a run writes, and nothing if the run has no meaning.\<close>

definition program_output :: "addr \<Rightarrow> addr \<Rightarrow> addr \<Rightarrow> addr line list" where
  "program_output a1 a2 a3 =
     (case ownership_and_lifetime_main a1 a2 a3 of None \<Rightarrow> [] | Some (s, status) \<Rightarrow> out s)"

subsection \<open>Reading a list of lines\<close>

fun is_acquire :: "'a line \<Rightarrow> bool" where
  "is_acquire (Acquire n a) = True"
| "is_acquire l = False"

fun is_release :: "'a line \<Rightarrow> bool" where
  "is_release (Release n a) = True"
| "is_release l = False"

fun is_use :: "'a line \<Rightarrow> bool" where
  "is_use (Use n a) = True"
| "is_use l = False"

fun is_owner_count :: "'a line \<Rightarrow> bool" where
  "is_owner_count (OwnerA p n) = True"
| "is_owner_count (OwnerB p n) = True"
| "is_owner_count (OwnerAAfter n) = True"
| "is_owner_count l = False"

text \<open>The lifecycle, use and owner-count lines of an output, in order.\<close>

definition traces :: "'a line list \<Rightarrow> 'a line list" where
  "traces ls = filter (\<lambda>l. is_acquire l \<or> is_use l \<or> is_release l \<or> is_owner_count l) ls"

text \<open>The owner counts an output reports, in order.\<close>

fun owner_counts :: "'a line list \<Rightarrow> nat list" where
  "owner_counts [] = []"
| "owner_counts (OwnerA p n # ls) = n # owner_counts ls"
| "owner_counts (OwnerB p n # ls) = n # owner_counts ls"
| "owner_counts (OwnerAAfter n # ls) = n # owner_counts ls"
| "owner_counts (l # ls) = owner_counts ls"

text \<open>What is written after the first occurrence of the line \<open>l\<close>.\<close>

definition lines_after :: "'a line \<Rightarrow> 'a line list \<Rightarrow> 'a line list" where
  "lines_after l ls = tl (dropWhile (\<lambda>x. x \<noteq> l) ls)"

text \<open>
  A line is written at program end when it is written after the banner
  \<^verbatim>\<open>=== End of Program ===\<close>, the last statement of \<open>main\<close> before \<open>return 0\<close>.
\<close>

definition at_program_end :: "'a line \<Rightarrow> 'a line list \<Rightarrow> bool" where
  "at_program_end l ls = (l \<in> set (lines_after (Header ''End of Program'') ls))"

text \<open>The markers the owner of the observer scenario prints, and those the observer prints.\<close>

fun owner_markers :: "'a line list \<Rightarrow> 'a option list" where
  "owner_markers [] = []"
| "owner_markers (OwnerHas p # ls) = p # owner_markers ls"
| "owner_markers (l # ls) = owner_markers ls"

fun observer_markers :: "'a line list \<Rightarrow> 'a option list" where
  "observer_markers [] = []"
| "observer_markers (ObserverSees p # ls) = p # observer_markers ls"
| "observer_markers (l # ls) = observer_markers ls"

text \<open>
  A pointer a function may be called with: null, or the address of a \<open>Resource\<close> that is
  alive. (C++ gives no meaning to the use of any other pointer value.)
\<close>

definition valid_ptr :: "addr option \<Rightarrow> world \<Rightarrow> bool" where
  "valid_ptr p s = (case p of None \<Rightarrow> True | Some a \<Rightarrow> objs s a \<noteq> None)"

text \<open>
  The state machine of a resource instance, run over an output: \<open>alive\<close> lists the
  instances that are Alive, by identity marker, with the name each was acquired under. An
  acquisition needs a marker that is not Alive, a use and a release need an Alive instance
  of that name and marker, a release ends it, and at the end no instance is left Alive.
\<close>

fun lifecycle :: "('a \<times> string) list \<Rightarrow> 'a line list \<Rightarrow> bool" where
  "lifecycle alive [] = (alive = [])"
| "lifecycle alive (Acquire n a # ls) =
     (map_of alive a = None \<and> lifecycle ((a, n) # alive) ls)"
| "lifecycle alive (Use n a # ls) = (map_of alive a = Some n \<and> lifecycle alive ls)"
| "lifecycle alive (Release n a # ls) =
     (map_of alive a = Some n \<and> lifecycle (filter (\<lambda>(b, m). b \<noteq> a) alive) ls)"
| "lifecycle alive (l # ls) = lifecycle alive ls"

text \<open>The structure of an output: its lines with every identity marker erased.\<close>

definition shape :: "'a line list \<Rightarrow> unit line list" where
  "shape ls = map (map_line (\<lambda>a. ())) ls"

text \<open>The structure of the benchmark's output: its lines with the timing numbers erased.\<close>

definition bench_shape :: "'d bench_line list \<Rightarrow> unit bench_line list" where
  "bench_shape ls = map (map_bench_line (\<lambda>d. ())) ls"

section \<open>Properties of the benchmark program\<close>

subsection \<open>The value of the loop\<close>

lemma sint_of_nat_small:
  assumes "n < 2 ^ 31"
  shows "sint (of_nat n :: int32) = int n"
  using assms by (simp add: signed_of_nat signed_take_bit_int_eq_self)

lemma compute_loop_sum:
  assumes "n \<le> 1000000"
  shows "compute_loop (of_nat n) s = s + of_nat (\<Sum>k = n..<1000000. k)"
  using assms
proof (induction "1000000 - n" arbitrary: n s)
  case 0
  then have n: "n = 1000000" by simp
  have "\<not> ((1000000 :: int32) <s 1000000)" by simp
  then show ?case unfolding n by (subst compute_loop.simps) simp
next
  case (Suc d)
  then have lt: "n < 1000000" by simp
  then have "sint (of_nat n :: int32) = int n" by (simp add: sint_of_nat_small)
  with lt have cond: "(of_nat n :: int32) <s 1000000" by (simp add: word_sless_alt)
  have step: "compute_loop (of_nat n) s = compute_loop (of_nat (Suc n)) (s + of_nat n)"
    using cond by (subst compute_loop.simps) (simp add: add.commute)
  have "compute_loop (of_nat (Suc n)) (s + of_nat n)
          = (s + of_nat n) + of_nat (\<Sum>k = Suc n..<1000000. k)"
    using Suc.hyps(1) [of "Suc n" "s + of_nat n"] Suc.hyps(2) lt by simp
  also have "\<dots> = s + of_nat (\<Sum>k = n..<1000000. k)"
    using lt by (simp add: sum.atLeast_Suc_lessThan add.assoc)
  finally show ?case using step by simp
qed

lemma gauss_million: "(\<Sum>k = 0..<1000000. k) = (499999500000 :: nat)"
  by (simp add: Sum_Ico_nat)

lemma compute_loop_value: "compute_loop 0 0 = 1783293664"
  using compute_loop_sum [of 0 0] by (simp add: gauss_million)

subsection \<open>The two member functions, and the overflow\<close>

lemma loops_agree: "computeNonConst_loop i s = compute_loop i s"
proof (induction i s rule: compute_loop.induct)
  case (1 i sum_v)
  show ?case
  proof (cases "i <s 1000000")
    case True
    with "1" show ?thesis
      by (subst computeNonConst_loop.simps, subst compute_loop.simps) simp
  next
    case False
    then show ?thesis
      by (subst computeNonConst_loop.simps, subst compute_loop.simps) simp
  qed
qed

lemma loops_strict_agree: "computeNonConst_loop_strict i s = compute_loop_strict i s"
proof (induction i s rule: compute_loop_strict.induct)
  case (1 i sum_v)
  show ?case
  proof (cases "i <s 1000000")
    case True
    show ?thesis
    proof (cases "add_int sum_v i")
      case None
      with True show ?thesis
        by (subst computeNonConst_loop_strict.simps, subst compute_loop_strict.simps) simp
    next
      case (Some s')
      note s' = this
      show ?thesis
      proof (cases "add_int i 1")
        case None
        with True s' show ?thesis
          by (subst computeNonConst_loop_strict.simps, subst compute_loop_strict.simps) simp
      next
        case (Some i')
        with True s' "1" [of s' i'] show ?thesis
          by (subst computeNonConst_loop_strict.simps, subst compute_loop_strict.simps) simp
      qed
    qed
  next
    case False
    then show ?thesis
      by (subst computeNonConst_loop_strict.simps, subst compute_loop_strict.simps) simp
  qed
qed

text \<open>Below the first overflow the accumulator holds the exact partial sum n(n-1)/2.\<close>

lemma compute_loop_strict_overflows:
  assumes "n \<le> 65536"
  shows "compute_loop_strict (of_nat n) (of_nat (n * (n - 1) div 2)) = None"
  using assms
proof (induction "65536 - n" arbitrary: n)
  case 0
  then have n: "n = 65536" by simp
  have "add_int (2147450880 :: int32) 65536 = None" by (simp add: add_int_def)
  then show ?case unfolding n by (subst compute_loop_strict.simps) simp
next
  case (Suc d)
  then have lt: "n < 65536" by simp
  let ?t = "n * (n - 1) div 2"
  have tri: "Suc n * (Suc n - 1) div 2 = ?t + n"
    by (cases n) simp_all
  have "n * (n - 1) \<le> 65535 * 65534" using lt by (intro mult_le_mono) simp_all
  then have tb: "?t \<le> 2147385345" by simp
  have si: "sint (of_nat n :: int32) = int n" using lt by (simp add: sint_of_nat_small)
  have st: "sint (of_nat ?t :: int32) = int ?t" using tb by (simp add: sint_of_nat_small)
  have cond: "(of_nat n :: int32) <s 1000000" using lt si by (simp add: word_sless_alt)
  have a1: "add_int (of_nat ?t) (of_nat n :: int32) = Some (of_nat (?t + n))"
    using lt tb si st by (simp add: add_int_def)
  have a2: "add_int (of_nat n :: int32) 1 = Some (of_nat (Suc n))"
    using lt si by (simp add: add_int_def add.commute)
  have "compute_loop_strict (of_nat n) (of_nat ?t)
          = compute_loop_strict (of_nat (Suc n)) (of_nat (?t + n))"
    using cond a1 a2 by (subst compute_loop_strict.simps) simp
  also have "\<dots> = None"
  proof -
    have "65536 - Suc n = d" and "Suc n \<le> 65536" using Suc.hyps(2) lt by simp_all
    then have "compute_loop_strict (of_nat (Suc n)) (of_nat (Suc n * (Suc n - 1) div 2)) = None"
      using Suc.hyps(1) [of "Suc n"] by simp
    then show ?thesis by (simp only: tri)
  qed
  finally show ?case .
qed

lemma compute_strict_None: "compute_loop_strict 0 0 = None"
  using compute_loop_strict_overflows [of 0] by simp

lemma const_batch_Data: "const_batch i data = data"
proof (induction i data rule: const_batch.induct)
  case (1 i data)
  then show ?case by (subst const_batch.simps) (simp add: Let_def)
qed

lemma nonconst_batch_Data: "nonconst_batch i data = data"
proof (induction i data rule: nonconst_batch.induct)
  case (1 i data)
  then show ?case by (subst nonconst_batch.simps) (simp add: computeNonConst_def)
qed

lemma const_vs_nonconst_main_result:
  "const_vs_nonconst_main t1 t2 t3 t4 = ([ConstDuration (t2 - t1), NonConstDuration (t4 - t3)], 0)"
  by (simp add: const_vs_nonconst_main_def)

text \<open>
  C2. The sum 0 + 1 + ... + 999999 is 499999500000, which no \<open>int\<close> holds. The
  accumulator of \<open>compute\<close> and of \<open>computeNonConst\<close> leaves the range of \<open>int\<close> when
  65536 is added to 2147450880: under ISO C++ the call has no defined result, and with
  wrap-around both functions return 1783293664, the sum modulo \<open>2 ^ 32\<close>, not the sum.
\<close>

theorem compute_overflows_int:
  "compute_strict d = None \<and> computeNonConst_strict d = None \<and>
   sint (compute d) = 1783293664 \<and> sint (fst (computeNonConst d)) = 1783293664 \<and>
   sint (compute d) \<noteq> 499999500000 \<and> sint (fst (computeNonConst d)) \<noteq> 499999500000 \<and>
   (\<Sum>k = 0..<1000000. k) = (499999500000 :: nat) \<and>
   (499999500000 :: int) mod 2 ^ 32 = 1783293664"
  by (simp add: compute_strict_def computeNonConst_strict_def compute_def computeNonConst_def
      loops_agree loops_strict_agree compute_strict_None compute_loop_value gauss_million)

text \<open>
  C3. \<open>compute\<close> and \<open>computeNonConst\<close> do the same computation: their loops agree
  from every state of counter and accumulator, under either reading of \<open>+\<close>; the
  results are equal, and \<open>computeNonConst\<close> leaves the object as it was.
\<close>

theorem computeNonConst_eq_compute:
  "computeNonConst d = (compute d, d) \<and>
   computeNonConst_loop i s = compute_loop i s \<and>
   computeNonConst_strict d = map_option (\<lambda>r. (r, d)) (compute_strict d) \<and>
   computeNonConst_loop_strict i s = compute_loop_strict i s"
  by (simp add: computeNonConst_def compute_def computeNonConst_strict_def compute_strict_def
      loops_agree loops_strict_agree map_option_case split: option.split)

section \<open>Properties of the lifetime demo program\<close>

subsection \<open>The operations of Resource and of the smart pointers\<close>

lemma Resource_ctor_result:
  "Resource_ctor n a s =
     s\<lparr>objs := (objs s)(a \<mapsto> \<lparr>name_m = n\<rparr>), out := out s @ [Acquire n a]\<rparr>"
  by (simp add: Resource_ctor_def cout_def)

lemma Resource_use_alive:
  assumes "objs s a = Some r"
  shows "Resource_use a s = Some (s\<lparr>out := out s @ [Use (name_m r) a]\<rparr>)"
  using assms by (simp add: Resource_use_def cout_def)

lemma Resource_dtor_alive:
  assumes "objs s a = Some r"
  shows "Resource_dtor a s =
           Some (s\<lparr>objs := (objs s)(a := None), out := out s @ [Release (name_m r) a]\<rparr>)"
  using assms by (simp add: Resource_dtor_def cout_def)

lemma consumeUnique_alive:
  assumes "objs s a = Some r"
  shows "consumeUnique (Some a) s =
           Some (s\<lparr>objs := (objs s)(a := None),
                   out := out s @ [ConsumeOwns (Some a), Use (name_m r) a, Release (name_m r) a]\<rparr>)"
  using assms
  by (simp add: consumeUnique_def arrow_use_def unique_ptr_dtor_def cout_def
      Resource_use_def Resource_dtor_def)

lemma uniqueOwnershipScenario_transfer_result:
  assumes "objs s a = None"
  shows "uniqueOwnershipScenario_transfer a s =
           Some (None, s\<lparr>out := out s @
             [Acquire ''unique_resource'' a, CallerOwns (Some a), ConsumeOwns (Some a),
              Use ''unique_resource'' a, Release ''unique_resource'' a]\<rparr>)"
  using assms
  by (simp add: uniqueOwnershipScenario_transfer_def createUniqueResource_def make_unique_def
      Resource_ctor_result unique_ptr_move_def consumeUnique_alive cout_def fun_upd_idem)

lemma uniqueOwnershipScenario_result:
  assumes "objs s a = None"
  shows "uniqueOwnershipScenario a s =
           Some (s\<lparr>out := out s @
             [Acquire ''unique_resource'' a, CallerOwns (Some a), ConsumeOwns (Some a),
              Use ''unique_resource'' a, Release ''unique_resource'' a, CallerEmpty]\<rparr>)"
  using assms
  by (simp add: uniqueOwnershipScenario_def uniqueOwnershipScenario_transfer_result
      unique_ptr_dtor_def cout_def)

lemma sharedOwnershipScenario_result:
  assumes "objs s a = None"
  shows "sharedOwnershipScenario a s =
           Some (s\<lparr>counts := (counts s)(a := None), out := out s @
             [Acquire ''shared_resource'' a, OwnerA (Some a) 1, OwnerB (Some a) 2,
              Use ''shared_resource'' a, OwnerAAfter 1, Use ''shared_resource'' a,
              Release ''shared_resource'' a]\<rparr>)"
  using assms
  by (simp add: sharedOwnershipScenario_def make_shared_def Resource_ctor_result use_count_def
      shared_ptr_copy_def arrow_use_def Resource_use_def shared_ptr_dtor_def Resource_dtor_def
      cout_def fun_upd_idem)

lemma observeResource_null:
  "observeResource None s = Some (s\<lparr>out := out s @ [ObserverSees None]\<rparr>)"
  by (simp add: observeResource_def cout_def)

lemma observeResource_alive:
  assumes "objs s a = Some r"
  shows "observeResource (Some a) s =
           Some (s\<lparr>out := out s @ [ObserverSees (Some a), Use (name_m r) a]\<rparr>)"
  using assms by (simp add: observeResource_def Resource_use_def cout_def)

lemma observerScenario_result:
  assumes "objs s a = None"
  shows "observerScenario a s =
           Some (s\<lparr>out := out s @
             [Acquire ''observer_resource'' a, OwnerHas (Some a), ObserverSees (Some a),
              Use ''observer_resource'' a, Release ''observer_resource'' a]\<rparr>)"
  using assms
  by (simp add: observerScenario_def make_unique_def Resource_ctor_result observeResource_alive
      unique_ptr_dtor_def Resource_dtor_def cout_def fun_upd_idem)

lemma main_result:
  "ownership_and_lifetime_main a1 a2 a3 =
     Some (\<lparr>objs = Map.empty, counts = Map.empty, out =
       [Header ''Unique Ownership'',
        Acquire ''unique_resource'' a1, CallerOwns (Some a1), ConsumeOwns (Some a1),
        Use ''unique_resource'' a1, Release ''unique_resource'' a1, CallerEmpty,
        Header ''Shared Ownership'',
        Acquire ''shared_resource'' a2, OwnerA (Some a2) 1, OwnerB (Some a2) 2,
        Use ''shared_resource'' a2, OwnerAAfter 1, Use ''shared_resource'' a2,
        Release ''shared_resource'' a2,
        Header ''Observer Ownership'',
        Acquire ''observer_resource'' a3, OwnerHas (Some a3), ObserverSees (Some a3),
        Use ''observer_resource'' a3, Release ''observer_resource'' a3,
        Header ''End of Program'']\<rparr>, 0)"
  by (simp add: ownership_and_lifetime_main_def initial_def cout_def
      uniqueOwnershipScenario_result sharedOwnershipScenario_result observerScenario_result)

lemma program_output_lines:
  "program_output a1 a2 a3 =
     [Header ''Unique Ownership'',
      Acquire ''unique_resource'' a1, CallerOwns (Some a1), ConsumeOwns (Some a1),
      Use ''unique_resource'' a1, Release ''unique_resource'' a1, CallerEmpty,
      Header ''Shared Ownership'',
      Acquire ''shared_resource'' a2, OwnerA (Some a2) 1, OwnerB (Some a2) 2,
      Use ''shared_resource'' a2, OwnerAAfter 1, Use ''shared_resource'' a2,
      Release ''shared_resource'' a2,
      Header ''Observer Ownership'',
      Acquire ''observer_resource'' a3, OwnerHas (Some a3), ObserverSees (Some a3),
      Use ''observer_resource'' a3, Release ''observer_resource'' a3,
      Header ''End of Program'']"
  by (simp add: program_output_def main_result)

subsection \<open>The order of the trace\<close>

text \<open>
  C1, amended. Whatever addresses the three allocations return, the program runs to its
  end with status 0 and its lifecycle, use and owner-count lines are, in this order:
  acquire (unique), use (within \<open>consumeUnique\<close>), release (unique), acquire (shared),
  owner count 1, owner count 2, use, owner count 1, use, release (shared), acquire
  (observer), use (observer), release (observer). The shared resource is released when
  \<open>sharedOwnershipScenario\<close> returns, before the observer section begins; the observer
  resource is released when \<open>observerScenario\<close> returns, before the banner
  \<^verbatim>\<open>=== End of Program ===\<close> is written.
\<close>

theorem lifetime_trace_order:
  "(\<exists>s. ownership_and_lifetime_main a1 a2 a3 = Some (s, 0)) \<and>
   traces (program_output a1 a2 a3) =
     [Acquire ''unique_resource'' a1, Use ''unique_resource'' a1, Release ''unique_resource'' a1,
      Acquire ''shared_resource'' a2, OwnerA (Some a2) 1, OwnerB (Some a2) 2,
      Use ''shared_resource'' a2, OwnerAAfter 1, Use ''shared_resource'' a2,
      Release ''shared_resource'' a2,
      Acquire ''observer_resource'' a3, Use ''observer_resource'' a3,
      Release ''observer_resource'' a3] \<and>
   lines_after (Release ''shared_resource'' a2) (program_output a1 a2 a3) =
     [Header ''Observer Ownership'',
      Acquire ''observer_resource'' a3, OwnerHas (Some a3), ObserverSees (Some a3),
      Use ''observer_resource'' a3, Release ''observer_resource'' a3,
      Header ''End of Program''] \<and>
   lines_after (Release ''observer_resource'' a3) (program_output a1 a2 a3) =
     [Header ''End of Program'']"
  unfolding program_output_lines
proof (intro conjI)
  show "\<exists>s. ownership_and_lifetime_main a1 a2 a3 = Some (s, 0)"
    by (simp add: main_result)
qed (simp_all add: traces_def lines_after_def)

text \<open>
  C1, as stated, fails. In the run whose allocations return the addresses 1, 2 and 3 the
  release of the shared resource is not written at program end: seven more lines follow
  it, the whole observer scenario among them, and neither release is written after the
  banner \<^verbatim>\<open>=== End of Program ===\<close>.
\<close>

theorem release_not_at_program_end:
  "ownership_and_lifetime_main 1 2 3 \<noteq> None \<and>
   \<not> at_program_end (Release ''shared_resource'' 2) (program_output 1 2 3) \<and>
   \<not> at_program_end (Release ''observer_resource'' 3) (program_output 1 2 3) \<and>
   lines_after (Release ''shared_resource'' 2) (program_output 1 2 3) =
     [Header ''Observer Ownership'',
      Acquire ''observer_resource'' 3, OwnerHas (Some 3), ObserverSees (Some 3),
      Use ''observer_resource'' 3, Release ''observer_resource'' 3,
      Header ''End of Program'']"
  by (simp add: main_result program_output_lines at_program_end_def lines_after_def)

subsection \<open>Exclusive ownership\<close>

text \<open>
  C4. From a state where the address \<open>a\<close> is free, the exclusive-ownership scenario
  writes exactly one acquisition and exactly one release; the release is the line right
  after the use line of \<open>consumeUnique\<close> and before the caller's next line. It is the last
  thing \<open>consumeUnique\<close> does: called with the owner of a live resource, \<open>consumeUnique\<close>
  writes its own line, the use and the release, and the resource is gone when it returns.
\<close>

theorem unique_scenario_one_acquire_one_release:
  assumes "objs s a = None" and "objs t b = Some r"
  shows "(\<exists>s'. uniqueOwnershipScenario a s = Some s' \<and>
           take (length (out s)) (out s') = out s \<and>
           drop (length (out s)) (out s') =
             [Acquire ''unique_resource'' a, CallerOwns (Some a), ConsumeOwns (Some a),
              Use ''unique_resource'' a, Release ''unique_resource'' a, CallerEmpty] \<and>
           length (filter is_acquire (drop (length (out s)) (out s'))) = 1 \<and>
           length (filter is_release (drop (length (out s)) (out s'))) = 1 \<and>
           lines_after (Use ''unique_resource'' a) (drop (length (out s)) (out s')) =
             [Release ''unique_resource'' a, CallerEmpty] \<and>
           objs s' a = None) \<and>
         (\<exists>t'. consumeUnique (Some b) t = Some t' \<and>
           out t' = out t @ [ConsumeOwns (Some b), Use (name_m r) b, Release (name_m r) b] \<and>
           objs t' b = None)"
  using assms
  by (simp add: uniqueOwnershipScenario_result consumeUnique_alive lines_after_def)

text \<open>
  The run of the scenario from the initial state, at address 1.
\<close>

theorem unique_scenario_one_acquire_one_release_witness:
  "objs initial 1 = None \<and>
   objs (initial\<lparr>objs := [1 \<mapsto> \<lparr>name_m = ''unique_resource''\<rparr>]\<rparr>) 1
     = Some \<lparr>name_m = ''unique_resource''\<rparr> \<and>
   map_option out (uniqueOwnershipScenario 1 initial) =
     Some [Acquire ''unique_resource'' 1, CallerOwns (Some 1), ConsumeOwns (Some 1),
           Use ''unique_resource'' 1, Release ''unique_resource'' 1, CallerEmpty] \<and>
   map_option out (consumeUnique (Some 1) (initial\<lparr>objs := [1 \<mapsto> \<lparr>name_m = ''unique_resource''\<rparr>]\<rparr>)) =
     Some [ConsumeOwns (Some 1), Use ''unique_resource'' 1, Release ''unique_resource'' 1]"
proof -
  let ?t = "initial\<lparr>objs := [1 \<mapsto> \<lparr>name_m = ''unique_resource''\<rparr>]\<rparr>"
  have h1: "objs initial 1 = None" by (simp add: initial_def)
  have h2: "objs ?t 1 = Some \<lparr>name_m = ''unique_resource''\<rparr>" by simp
  from unique_scenario_one_acquire_one_release [OF h1 h2]
  show ?thesis using h1 by (auto simp: initial_def)
qed

text \<open>
  C5. From a state where the address \<open>a\<close> is free: the caller first holds the resource
  (\<open>createUniqueResource\<close> returns the pointer to a live \<open>unique_resource\<close> at \<open>a\<close>), and
  moving from that pointer gives the consumer the pointer and leaves the caller's empty.
  When the call \<open>consumeUnique(std::move(res))\<close> has returned, the lines written are the
  acquisition, the caller's line with the marker \<open>a\<close>, the consumer's line with the same
  marker, the use and the release; the caller's \<open>res\<close> is null and the resource is no
  longer alive. The caller then reports that it holds nothing: the line
  \<^verbatim>\<open>[Caller] unique_ptr is now empty\<close> is the one line the scenario adds after the call.
\<close>

theorem owner_empty_after_transfer:
  assumes "objs s a = None"
  shows "(\<exists>s1. createUniqueResource a s = (Some a, s1) \<and>
            objs s1 a = Some \<lparr>name_m = ''unique_resource''\<rparr> \<and>
            out s1 = out s @ [Acquire ''unique_resource'' a]) \<and>
         unique_ptr_move (fst (createUniqueResource a s)) = (Some a, None) \<and>
         (\<exists>s'. uniqueOwnershipScenario_transfer a s = Some (None, s') \<and>
            out s' = out s @
              [Acquire ''unique_resource'' a, CallerOwns (Some a), ConsumeOwns (Some a),
               Use ''unique_resource'' a, Release ''unique_resource'' a] \<and>
            objs s' = objs s \<and> counts s' = counts s \<and> objs s' a = None \<and>
            uniqueOwnershipScenario a s = Some (s'\<lparr>out := out s' @ [CallerEmpty]\<rparr>))"
proof -
  have held: "createUniqueResource a s =
      (Some a, s\<lparr>objs := (objs s)(a \<mapsto> \<lparr>name_m = ''unique_resource''\<rparr>),
                  out := out s @ [Acquire ''unique_resource'' a]\<rparr>)"
    by (simp add: createUniqueResource_def make_unique_def Resource_ctor_result)
  have moved: "unique_ptr_move (fst (createUniqueResource a s)) = (Some a, None)"
    by (simp add: held unique_ptr_move_def)
  have after: "\<exists>s'. uniqueOwnershipScenario_transfer a s = Some (None, s') \<and>
            out s' = out s @
              [Acquire ''unique_resource'' a, CallerOwns (Some a), ConsumeOwns (Some a),
               Use ''unique_resource'' a, Release ''unique_resource'' a] \<and>
            objs s' = objs s \<and> counts s' = counts s \<and> objs s' a = None \<and>
            uniqueOwnershipScenario a s = Some (s'\<lparr>out := out s' @ [CallerEmpty]\<rparr>)"
    using assms
    by (simp add: uniqueOwnershipScenario_transfer_result uniqueOwnershipScenario_result)
  from held moved after show ?thesis by simp
qed

text \<open>
  The transfer from the initial state, at address 1.
\<close>

theorem owner_empty_after_transfer_witness:
  "objs initial 1 = None \<and>
   fst (createUniqueResource 1 initial) = Some 1 \<and>
   unique_ptr_move (fst (createUniqueResource 1 initial)) = (Some 1, None) \<and>
   map_option fst (uniqueOwnershipScenario_transfer 1 initial) = Some None \<and>
   map_option (out \<circ> snd) (uniqueOwnershipScenario_transfer 1 initial) =
     Some [Acquire ''unique_resource'' 1, CallerOwns (Some 1), ConsumeOwns (Some 1),
           Use ''unique_resource'' 1, Release ''unique_resource'' 1] \<and>
   map_option out (uniqueOwnershipScenario 1 initial) =
     Some [Acquire ''unique_resource'' 1, CallerOwns (Some 1), ConsumeOwns (Some 1),
           Use ''unique_resource'' 1, Release ''unique_resource'' 1, CallerEmpty]"
proof -
  have h: "objs initial 1 = None" by (simp add: initial_def)
  from owner_empty_after_transfer [OF h]
  show ?thesis using h by (auto simp: initial_def)
qed

subsection \<open>Shared ownership\<close>

lemma shared_ptr_dtor_other_owners:
  assumes "counts t b = Some n" and "1 < n"
  shows "shared_ptr_dtor (Some b) t = Some (t\<lparr>counts := (counts t)(b \<mapsto> n - 1)\<rparr>)"
  using assms by (simp add: shared_ptr_dtor_def)

lemma shared_ptr_dtor_last_owner:
  assumes "counts t b = Some 1" and "objs t b = Some r"
  shows "shared_ptr_dtor (Some b) t =
           Some (t\<lparr>objs := (objs t)(b := None), counts := (counts t)(b := None),
                   out := out t @ [Release (name_m r) b]\<rparr>)"
  using assms by (simp add: shared_ptr_dtor_def Resource_dtor_def cout_def)

text \<open>
  C6. From a state where the address \<open>a\<close> is free, the shared-ownership scenario reports
  the owner counts 1, 2, 1, uses the resource through the second owner and through the
  first, and writes its only release as its last line, after every count and use. For a
  live resource with \<open>n > 0\<close> owners: a copy of an owner is a second owner of the same
  resource, the count is \<open>n + 1\<close>, the use through it succeeds, and destroying the copy
  writes nothing and gives the state before the copy; destroying an owner releases the
  resource if it was the last one (\<open>n = 1\<close>), and otherwise writes nothing, leaves the
  resource alive and the count at \<open>n - 1\<close>.
\<close>

theorem shared_scenario_owner_counts:
  assumes "objs s a = None" and "counts t b = Some n" and "0 < n" and "objs t b = Some r"
  shows "(\<exists>s'. sharedOwnershipScenario a s = Some s' \<and>
           take (length (out s)) (out s') = out s \<and>
           drop (length (out s)) (out s') =
             [Acquire ''shared_resource'' a, OwnerA (Some a) 1, OwnerB (Some a) 2,
              Use ''shared_resource'' a, OwnerAAfter 1, Use ''shared_resource'' a,
              Release ''shared_resource'' a] \<and>
           owner_counts (drop (length (out s)) (out s')) = [1, 2, 1] \<and>
           filter is_release (drop (length (out s)) (out s')) = [Release ''shared_resource'' a] \<and>
           lines_after (Release ''shared_resource'' a) (drop (length (out s)) (out s')) = [] \<and>
           objs s' a = None) \<and>
         (\<exists>t'. shared_ptr_copy (Some b) t = Some (Some b, t') \<and>
            use_count (Some b) t' = Some (n + 1) \<and> out t' = out t \<and> objs t' = objs t \<and>
            arrow_use (Some b) t' = Some (t'\<lparr>out := out t' @ [Use (name_m r) b]\<rparr>) \<and>
            shared_ptr_dtor (Some b) t' = Some t) \<and>
         (\<exists>t'. shared_ptr_dtor (Some b) t = Some t' \<and>
            (if n = 1 then out t' = out t @ [Release (name_m r) b] \<and> objs t' b = None
             else out t' = out t \<and> objs t' = objs t \<and> use_count (Some b) t' = Some (n - 1)))"
proof -
  have copy: "shared_ptr_copy (Some b) t = Some (Some b, t\<lparr>counts := (counts t)(b \<mapsto> n + 1)\<rparr>)"
    using assms(2) by (simp add: shared_ptr_copy_def)
  have same: "(counts t)(b \<mapsto> n) = counts t"
    using assms(2) by (simp add: fun_upd_idem)
  have A: "\<exists>t'. shared_ptr_copy (Some b) t = Some (Some b, t') \<and>
            use_count (Some b) t' = Some (n + 1) \<and> out t' = out t \<and> objs t' = objs t \<and>
            arrow_use (Some b) t' = Some (t'\<lparr>out := out t' @ [Use (name_m r) b]\<rparr>) \<and>
            shared_ptr_dtor (Some b) t' = Some t"
    using assms(2-4) same
    by (simp add: copy use_count_def arrow_use_def Resource_use_alive shared_ptr_dtor_def)
  have B: "\<exists>t'. shared_ptr_dtor (Some b) t = Some t' \<and>
            (if n = 1 then out t' = out t @ [Release (name_m r) b] \<and> objs t' b = None
             else out t' = out t \<and> objs t' = objs t \<and> use_count (Some b) t' = Some (n - 1))"
  proof (cases "n = 1")
    case True
    then show ?thesis using assms(2,4) by (simp add: shared_ptr_dtor_last_owner)
  next
    case False
    then have "1 < n" using assms(3) by simp
    then show ?thesis using assms(2) False
      by (simp add: shared_ptr_dtor_other_owners use_count_def)
  qed
  have C: "\<exists>s'. sharedOwnershipScenario a s = Some s' \<and>
           take (length (out s)) (out s') = out s \<and>
           drop (length (out s)) (out s') =
             [Acquire ''shared_resource'' a, OwnerA (Some a) 1, OwnerB (Some a) 2,
              Use ''shared_resource'' a, OwnerAAfter 1, Use ''shared_resource'' a,
              Release ''shared_resource'' a] \<and>
           owner_counts (drop (length (out s)) (out s')) = [1, 2, 1] \<and>
           filter is_release (drop (length (out s)) (out s')) = [Release ''shared_resource'' a] \<and>
           lines_after (Release ''shared_resource'' a) (drop (length (out s)) (out s')) = [] \<and>
           objs s' a = None"
    using assms(1) by (simp add: sharedOwnershipScenario_result lines_after_def)
  from C A B show ?thesis by (intro conjI)
qed

text \<open>
  The scenario from the initial state, and the last owner of a live resource destroyed.
\<close>

theorem shared_scenario_owner_counts_witness:
  "objs initial 1 = None \<and>
   counts (initial\<lparr>objs := [1 \<mapsto> \<lparr>name_m = ''shared_resource''\<rparr>], counts := [1 \<mapsto> 1]\<rparr>) 1 = Some 1 \<and>
   (0::nat) < 1 \<and>
   objs (initial\<lparr>objs := [1 \<mapsto> \<lparr>name_m = ''shared_resource''\<rparr>], counts := [1 \<mapsto> 1]\<rparr>) 1
     = Some \<lparr>name_m = ''shared_resource''\<rparr> \<and>
   map_option out (sharedOwnershipScenario 1 initial) =
     Some [Acquire ''shared_resource'' 1, OwnerA (Some 1) 1, OwnerB (Some 1) 2,
           Use ''shared_resource'' 1, OwnerAAfter 1, Use ''shared_resource'' 1,
           Release ''shared_resource'' 1] \<and>
   map_option out (shared_ptr_dtor (Some 1)
       (initial\<lparr>objs := [1 \<mapsto> \<lparr>name_m = ''shared_resource''\<rparr>], counts := [1 \<mapsto> 1]\<rparr>)) =
     Some [Release ''shared_resource'' 1]"
proof -
  let ?t = "initial\<lparr>objs := [1 \<mapsto> \<lparr>name_m = ''shared_resource''\<rparr>], counts := [1 \<mapsto> 1]\<rparr>"
  have h1: "objs initial 1 = None" by (simp add: initial_def)
  have h2: "counts ?t 1 = Some 1" by simp
  have h3: "(0::nat) < 1" by simp
  have h4: "objs ?t 1 = Some \<lparr>name_m = ''shared_resource''\<rparr>" by simp
  from shared_scenario_owner_counts [OF h1 h2 h3 h4]
  show ?thesis using h1 by (auto simp: initial_def)
qed

subsection \<open>The lifecycle of a resource\<close>

text \<open>
  C7. For a \<open>Resource\<close>: the constructor, in any state and at any address, writes exactly
  one acquisition line and begins the life of an object of that name there; the destructor
  of the object just constructed writes exactly one release line with the same name and
  marker, and a use of it exactly one use line with that name and marker. On an object
  that is alive, \<open>use\<close> writes exactly one use line and changes no object, and the
  destructor writes exactly one release line and ends the object's life. Using or
  destroying an object that is not alive has no meaning. The program never does so: every
  run is defined, its output passes the state machine Uninitialized, Alive, Released for
  every instance (each use and release is of an instance that is alive, under the name and
  marker of its acquisition, and no instance stays alive), with three acquisitions and
  three releases.
\<close>

theorem resource_lifecycle:
  assumes "objs s a = None" and "objs t b = Some r"
  shows "out (Resource_ctor n c u) = out u @ [Acquire n c] \<and>
         objs (Resource_ctor n c u) = (objs u)(c \<mapsto> \<lparr>name_m = n\<rparr>) \<and>
         counts (Resource_ctor n c u) = counts u \<and>
         Resource_use c (Resource_ctor n c u) =
           Some (u\<lparr>objs := (objs u)(c \<mapsto> \<lparr>name_m = n\<rparr>),
                   out := out u @ [Acquire n c, Use n c]\<rparr>) \<and>
         Resource_dtor c (Resource_ctor n c u) =
           Some (u\<lparr>objs := (objs u)(c := None), out := out u @ [Acquire n c, Release n c]\<rparr>) \<and>
         (\<exists>t'. Resource_use b t = Some t' \<and> out t' = out t @ [Use (name_m r) b] \<and>
            objs t' = objs t \<and> counts t' = counts t) \<and>
         (\<exists>t'. Resource_dtor b t = Some t' \<and> out t' = out t @ [Release (name_m r) b] \<and>
            objs t' = (objs t)(b := None) \<and> counts t' = counts t) \<and>
         Resource_use a s = None \<and> Resource_dtor a s = None \<and>
         (\<exists>w. ownership_and_lifetime_main a1 a2 a3 = Some (w, 0)) \<and>
         lifecycle [] (program_output a1 a2 a3) \<and>
         length (filter is_acquire (program_output a1 a2 a3)) = 3 \<and>
         length (filter is_release (program_output a1 a2 a3)) = 3"
proof -
  have A: "out (Resource_ctor n c u) = out u @ [Acquire n c] \<and>
         objs (Resource_ctor n c u) = (objs u)(c \<mapsto> \<lparr>name_m = n\<rparr>) \<and>
         counts (Resource_ctor n c u) = counts u"
    by (simp add: Resource_ctor_result)
  have A1: "Resource_use c (Resource_ctor n c u) =
           Some (u\<lparr>objs := (objs u)(c \<mapsto> \<lparr>name_m = n\<rparr>),
                   out := out u @ [Acquire n c, Use n c]\<rparr>)"
    by (simp add: Resource_ctor_result Resource_use_def cout_def)
  have A2: "Resource_dtor c (Resource_ctor n c u) =
           Some (u\<lparr>objs := (objs u)(c := None), out := out u @ [Acquire n c, Release n c]\<rparr>)"
    by (simp add: Resource_ctor_result Resource_dtor_def cout_def)
  have B: "\<exists>t'. Resource_use b t = Some t' \<and> out t' = out t @ [Use (name_m r) b] \<and>
            objs t' = objs t \<and> counts t' = counts t"
    using assms(2) by (simp add: Resource_use_alive)
  have C: "\<exists>t'. Resource_dtor b t = Some t' \<and> out t' = out t @ [Release (name_m r) b] \<and>
            objs t' = (objs t)(b := None) \<and> counts t' = counts t"
    using assms(2) by (simp add: Resource_dtor_alive)
  have D: "Resource_use a s = None \<and> Resource_dtor a s = None"
    using assms(1) by (simp add: Resource_use_def Resource_dtor_def)
  have E: "\<exists>w. ownership_and_lifetime_main a1 a2 a3 = Some (w, 0)"
    by (simp add: main_result)
  have F: "lifecycle [] (program_output a1 a2 a3)"
    by (simp add: program_output_lines)
  have G: "length (filter is_acquire (program_output a1 a2 a3)) = 3 \<and>
           length (filter is_release (program_output a1 a2 a3)) = 3"
    by (simp add: program_output_lines)
  from A A1 A2 B C D E F G show ?thesis by (intro conjI) simp_all
qed

text \<open>
  A resource constructed at address 1 of the initial state, one constructed where one is
  alive, and one alive at address 1.
\<close>

theorem resource_lifecycle_witness:
  "objs initial 1 = None \<and>
   objs (initial\<lparr>objs := [1 \<mapsto> \<lparr>name_m = ''unique_resource''\<rparr>]\<rparr>) 1
     = Some \<lparr>name_m = ''unique_resource''\<rparr> \<and>
   out (Resource_ctor ''shared_resource'' 1
         (initial\<lparr>objs := [1 \<mapsto> \<lparr>name_m = ''unique_resource''\<rparr>]\<rparr>)) =
     [Acquire ''shared_resource'' 1] \<and>
   map_option out (Resource_use 1 (initial\<lparr>objs := [1 \<mapsto> \<lparr>name_m = ''unique_resource''\<rparr>]\<rparr>)) =
     Some [Use ''unique_resource'' 1] \<and>
   map_option out (Resource_dtor 1 (initial\<lparr>objs := [1 \<mapsto> \<lparr>name_m = ''unique_resource''\<rparr>]\<rparr>)) =
     Some [Release ''unique_resource'' 1] \<and>
   Resource_use 1 initial = None \<and>
   lifecycle [] (program_output 1 2 3)"
proof -
  let ?t = "initial\<lparr>objs := [1 \<mapsto> \<lparr>name_m = ''unique_resource''\<rparr>]\<rparr>"
  have h1: "objs initial 1 = None" by (simp add: initial_def)
  have h2: "objs ?t 1 = Some \<lparr>name_m = ''unique_resource''\<rparr>" by simp
  from resource_lifecycle [OF h1 h2, of "''shared_resource''" 1 ?t 1 2 3]
  show ?thesis using h1 by (auto simp: initial_def)
qed

subsection \<open>Observation\<close>

lemma observeResource_keeps_store:
  assumes "observeResource p t = Some t'"
  shows "objs t' = objs t \<and> counts t' = counts t \<and>
         filter is_release (out t') = filter is_release (out t)"
proof (cases p)
  case None
  with assms show ?thesis by (auto simp: observeResource_def cout_def)
next
  case (Some b)
  with assms show ?thesis
    by (auto simp: observeResource_def Resource_use_def cout_def split: option.splits)
qed

text \<open>
  C8. In the observer scenario the marker the observer prints is the marker the owner
  prints, the address of the resource; the release is written after the observer's lines,
  by the owner's destructor. \<open>observeResource\<close> itself, wherever it returns, has changed
  no object and no use count and has written no release line.
\<close>

theorem observer_marker_and_release:
  assumes "objs s a = None" and "observeResource p t = Some t'"
  shows "(\<exists>s'. observerScenario a s = Some s' \<and>
           take (length (out s)) (out s') = out s \<and>
           drop (length (out s)) (out s') =
             [Acquire ''observer_resource'' a, OwnerHas (Some a), ObserverSees (Some a),
              Use ''observer_resource'' a, Release ''observer_resource'' a] \<and>
           observer_markers (drop (length (out s)) (out s')) =
             owner_markers (drop (length (out s)) (out s')) \<and>
           owner_markers (drop (length (out s)) (out s')) = [Some a] \<and>
           lines_after (ObserverSees (Some a)) (drop (length (out s)) (out s')) =
             [Use ''observer_resource'' a, Release ''observer_resource'' a] \<and>
           objs s' a = None) \<and>
         objs t' = objs t \<and> counts t' = counts t \<and>
         filter is_release (out t') = filter is_release (out t)"
  using assms(1) observeResource_keeps_store [OF assms(2)]
  by (simp add: observerScenario_result lines_after_def)

text \<open>
  The scenario from the initial state, and \<open>observeResource\<close> on a live resource.
\<close>

theorem observer_marker_and_release_witness:
  "objs initial 1 = None \<and>
   observeResource (Some 1) (initial\<lparr>objs := [1 \<mapsto> \<lparr>name_m = ''observer_resource''\<rparr>]\<rparr>) =
     Some (initial\<lparr>objs := [1 \<mapsto> \<lparr>name_m = ''observer_resource''\<rparr>],
                   out := [ObserverSees (Some 1), Use ''observer_resource'' 1]\<rparr>) \<and>
   map_option out (observerScenario 1 initial) =
     Some [Acquire ''observer_resource'' 1, OwnerHas (Some 1), ObserverSees (Some 1),
           Use ''observer_resource'' 1, Release ''observer_resource'' 1] \<and>
   filter is_release [ObserverSees (Some (1::nat)), Use ''observer_resource'' 1] = []"
proof -
  let ?t = "initial\<lparr>objs := [1 \<mapsto> \<lparr>name_m = ''observer_resource''\<rparr>]\<rparr>"
  have h1: "objs initial 1 = None" by (simp add: initial_def)
  have h2: "observeResource (Some 1) ?t =
     Some (initial\<lparr>objs := [1 \<mapsto> \<lparr>name_m = ''observer_resource''\<rparr>],
                   out := [ObserverSees (Some 1), Use ''observer_resource'' 1]\<rparr>)"
    by (simp add: observeResource_def Resource_use_def cout_def initial_def)
  from observer_marker_and_release [OF h1 h2]
  show ?thesis using h1 h2 by (auto simp: initial_def)
qed

text \<open>
  C10. \<open>observeResource\<close> returns for the null pointer and for every pointer to a live
  resource. It writes the observer line with the pointer it was given first, and then
  calls \<open>use\<close> exactly when the pointer is not null: for the null pointer the observer
  line is all it writes. It changes no object and no use count.
\<close>

theorem observeResource_total:
  assumes "valid_ptr p s"
  shows "observeResource None s = Some (s\<lparr>out := out s @ [ObserverSees None]\<rparr>) \<and>
         (\<exists>s'. observeResource p s = Some s' \<and>
            objs s' = objs s \<and> counts s' = counts s \<and>
            out s' = out s @ ObserverSees p #
              (case p of None \<Rightarrow> [] | Some a \<Rightarrow> [Use (name_m (the (objs s a))) a]) \<and>
            (list_ex is_use (drop (length (out s)) (out s')) \<longleftrightarrow> p \<noteq> None))"
proof (cases p)
  case None
  then show ?thesis by (simp add: observeResource_null)
next
  case (Some a)
  with assms obtain r where r: "objs s a = Some r" by (auto simp: valid_ptr_def)
  show ?thesis using Some r by (simp add: observeResource_null observeResource_alive)
qed

text \<open>
  The null pointer, and a pointer to a live resource.
\<close>

theorem observeResource_total_witness:
  "valid_ptr (Some 1) (initial\<lparr>objs := [1 \<mapsto> \<lparr>name_m = ''observer_resource''\<rparr>]\<rparr>) \<and>
   valid_ptr None initial \<and>
   map_option out (observeResource None initial) = Some [ObserverSees None] \<and>
   map_option out (observeResource (Some 1)
       (initial\<lparr>objs := [1 \<mapsto> \<lparr>name_m = ''observer_resource''\<rparr>]\<rparr>)) =
     Some [ObserverSees (Some 1), Use ''observer_resource'' 1]"
proof -
  let ?t = "initial\<lparr>objs := [1 \<mapsto> \<lparr>name_m = ''observer_resource''\<rparr>]\<rparr>"
  have h1: "valid_ptr (Some 1) ?t" by (simp add: valid_ptr_def)
  have h2: "valid_ptr None initial" by (simp add: valid_ptr_def)
  from observeResource_total [OF h1] observeResource_total [OF h2]
  show ?thesis using h1 h2 by (auto simp: initial_def)
qed

section \<open>Two runs of a program\<close>

text \<open>
  C9. Two runs of the lifetime demo differ at most in the addresses the allocator returns,
  two runs of the benchmark at most in the readings of the clock. Every run of the
  lifetime demo ends with status 0, and any two runs write the same lines up to the
  identity markers; every run of the benchmark ends with status 0, and any two runs write
  the same lines up to the timing numbers. (The benchmark is taken with wrap-around
  addition.)
\<close>

theorem runs_same_structure:
  "(\<exists>s. ownership_and_lifetime_main a1 a2 a3 = Some (s, 0)) \<and>
   shape (program_output a1 a2 a3) = shape (program_output b1 b2 b3) \<and>
   snd (const_vs_nonconst_main t1 t2 t3 t4) = 0 \<and>
   bench_shape (fst (const_vs_nonconst_main t1 t2 t3 t4)) =
     bench_shape (fst (const_vs_nonconst_main u1 u2 u3 u4))"
  by (simp add: main_result program_output_lines shape_def bench_shape_def
      const_vs_nonconst_main_result)

end
